theory Spec2Isabelle
  imports Main
begin

section \<open>The Go string functions used by pom.go\<close>

text \<open>
  A Go \<^verbatim>\<open>string\<close> is a sequence of bytes; it is modelled as a \<^typ>\<open>string\<close>
  (a list of 8-bit characters). The functions of package \<^verbatim>\<open>strings\<close> that pom.go
  calls are written out on such byte strings. Where Go's function looks at Unicode
  properties (\<^verbatim>\<open>TrimSpace\<close>, \<^verbatim>\<open>Fields\<close>, \<^verbatim>\<open>ToLower\<close>), the model is that of
  ASCII text: the white space characters are tab, line feed, vertical tab, form feed,
  carriage return and space, and only \<^verbatim>\<open>A\<close> to \<^verbatim>\<open>Z\<close> have a lower case.
\<close>

definition isSpace :: "char \<Rightarrow> bool" where
  "isSpace c = (c = CHR 0x09 \<or> c = CHR 0x0A \<or> c = CHR 0x0B \<or> c = CHR 0x0C \<or> c = CHR 0x0D \<or> c = CHR '' '')"

definition TrimSpace :: "string \<Rightarrow> string" where
  "TrimSpace s = rev (dropWhile isSpace (rev (dropWhile isSpace s)))"

definition HasPrefix :: "string \<Rightarrow> string \<Rightarrow> bool" where
  "HasPrefix s pre = (length pre \<le> length s \<and> take (length pre) s = pre)"

definition HasSuffix :: "string \<Rightarrow> string \<Rightarrow> bool" where
  "HasSuffix s suf = (length suf \<le> length s \<and> drop (length s - length suf) s = suf)"

definition TrimSuffix :: "string \<Rightarrow> string \<Rightarrow> string" where
  "TrimSuffix s suf = (if HasSuffix s suf then take (length s - length suf) s else s)"

text \<open>\<^verbatim>\<open>strings.Index\<close>: the index of the first instance of \<open>sub\<close> in \<open>s\<close>, or -1.\<close>

fun Index :: "string \<Rightarrow> string \<Rightarrow> int" where
  "Index [] sub = (if sub = [] then 0 else -1)"
| "Index (c # cs) sub =
     (if HasPrefix (c # cs) sub then 0
      else (let i = Index cs sub in if i < 0 then -1 else i + 1))"

text \<open>
  \<^verbatim>\<open>strings.Fields\<close>: the maximal runs of characters that are not white space, in
  order. \<open>cur\<close> is the field being read.
\<close>

fun fields_from :: "string \<Rightarrow> string \<Rightarrow> string list" where
  "fields_from cur [] = (if cur = [] then [] else [cur])"
| "fields_from cur (c # cs) =
     (if isSpace c then (if cur = [] then fields_from [] cs else cur # fields_from [] cs)
      else fields_from (cur @ [c]) cs)"

definition Fields :: "string \<Rightarrow> string list" where
  "Fields s = fields_from [] s"

definition toLower :: "char \<Rightarrow> char" where
  "toLower c = (let n = (of_char c :: nat) in if 65 \<le> n \<and> n \<le> 90 then char_of (n + 32) else c)"

definition ToLower :: "string \<Rightarrow> string" where
  "ToLower s = map toLower s"

text \<open>
  \<^verbatim>\<open>strings.Replace(s, old, new, n)\<close>: the first \<open>n\<close> non-overlapping instances of
  \<open>old\<close> replaced by \<open>new\<close>, all of them when \<open>n < 0\<close>. An empty \<open>old\<close> matches
  before every character and at the end.
\<close>

function replace_from :: "string \<Rightarrow> string \<Rightarrow> string \<Rightarrow> int \<Rightarrow> string" where
  "replace_from [] old new n = []"
| "replace_from (c # cs) old new n =
     (if n \<noteq> 0 \<and> old \<noteq> [] \<and> HasPrefix (c # cs) old
      then new @ replace_from (drop (length old) (c # cs)) old new (n - 1)
      else c # replace_from cs old new n)"
  by pat_completeness auto
termination
  by (relation "measure (\<lambda>(s, old, new, n). length s)") auto

fun replace_empty :: "string \<Rightarrow> string \<Rightarrow> int \<Rightarrow> string" where
  "replace_empty [] new n = (if n \<noteq> 0 then new else [])"
| "replace_empty (c # cs) new n =
     (if n \<noteq> 0 then new @ c # replace_empty cs new (n - 1) else c # cs)"

definition Replace :: "string \<Rightarrow> string \<Rightarrow> string \<Rightarrow> int \<Rightarrow> string" where
  "Replace s old new n =
     (if old = new \<or> n = 0 then s
      else if old = [] then replace_empty s new n
      else replace_from s old new n)"

text \<open>\<^verbatim>\<open>strings.Count\<close>: the number of non-overlapping instances of \<open>sub\<close> in \<open>s\<close>.\<close>

function count_from :: "string \<Rightarrow> string \<Rightarrow> nat" where
  "count_from [] sub = 0"
| "count_from (c # cs) sub =
     (if sub \<noteq> [] \<and> HasPrefix (c # cs) sub
      then Suc (count_from (drop (length sub) (c # cs)) sub)
      else count_from cs sub)"
  by pat_completeness auto
termination
  by (relation "measure (\<lambda>(s, sub). length s)") auto

definition Count :: "string \<Rightarrow> string \<Rightarrow> nat" where
  "Count s sub = (if sub = [] then length s + 1 else count_from s sub)"

definition Repeat :: "string \<Rightarrow> nat \<Rightarrow> string" where
  "Repeat s n = concat (replicate n s)"

section \<open>The data model\<close>

text \<open>
  \<^verbatim>\<open>Grammar\<close> and \<^verbatim>\<open>Project\<close> are the structs of pom.go, field by field. The
  \<^verbatim>\<open>Type\<close> of a grammar is a Go string there, and so it is here.
\<close>

record Grammar =
  Name :: string
  Filename :: string
  Type :: string

record Project =
  FileName :: string
  LongName :: string
  Includes :: "string list"
  Grammars :: "Grammar list"
  EntryPoint :: string
  ExampleRoot :: string
  Examples :: "string list"
  CaseInsensitiveType :: string
  FoundAntlr4MavenPlugin :: bool

text \<open>
  A Go function ends in one of three ways: it returns a value, it returns a non-nil
  \<^verbatim>\<open>error\<close>, or it panics. A panic is not a return value: it unwinds the stack and
  ends the program unless some caller recovers from it. The panics of pom.go carry a
  formatted message; the model keeps the message's kind and its argument. The three
  ways are the three constructors of \<open>result\<close>.
\<close>

datatype panic =
    NoParser string  \<comment> \<open>\<^verbatim>\<open>"%q does not contain a parser"\<close>, with the project's FileName\<close>
  | NoLexer string  \<comment> \<open>\<^verbatim>\<open>"%q does not contain a lexer"\<close>, with the project's FileName\<close>
  | UnknownGrammarType string  \<comment> \<open>\<^verbatim>\<open>"unknown grammar type %q"\<close>, with the Type\<close>

datatype error =
    IOError string  \<comment> \<open>an error of \<^verbatim>\<open>os.Open\<close> or of the line scanner\<close>
  | ParseError string  \<comment> \<open>\<^verbatim>\<open>"failed to parse grammar name: %q"\<close>, with the line\<close>
  | NotFoundError  \<comment> \<open>\<^verbatim>\<open>"failed to find fields of interest in grammar"\<close>\<close>
  | DecodeError string  \<comment> \<open>an error of \<^verbatim>\<open>decoder.DecodeElement\<close>\<close>
  | GlobError string  \<comment> \<open>an error of \<^verbatim>\<open>filepath.Glob\<close>\<close>

datatype 'a result = is_Ok: Ok 'a | is_Err: Err error | is_Panic: Panic panic

section \<open>Derived names\<close>

fun findGrammarOfType_in :: "Grammar list \<Rightarrow> string \<Rightarrow> Grammar option" where
  "findGrammarOfType_in [] t = None"
| "findGrammarOfType_in (g # gs) t = (if Type g = t then Some g else findGrammarOfType_in gs t)"

definition findGrammarOfType :: "Project \<Rightarrow> string \<Rightarrow> Grammar option" where
  "findGrammarOfType p t = findGrammarOfType_in (Grammars p) t"

definition ListenerName :: "Project \<Rightarrow> string result" where
  "ListenerName p =
     (case findGrammarOfType p ''PARSER'' of
        Some g \<Rightarrow> Ok (Name g @ ''Listener'')
      | None \<Rightarrow>
          (case findGrammarOfType p ''COMBINED'' of
             Some g \<Rightarrow> Ok (Name g @ ''Listener'')
           | None \<Rightarrow> Panic (NoParser (FileName p))))"

definition grammarParserName :: "Project \<Rightarrow> string result" where
  "grammarParserName p =
     (case findGrammarOfType p ''PARSER'' of
        Some g \<Rightarrow> Ok (TrimSuffix (Name g) ''Parser'')
      | None \<Rightarrow>
          (case findGrammarOfType p ''COMBINED'' of
             Some g \<Rightarrow> Ok (Name g)
           | None \<Rightarrow> Panic (NoParser (FileName p))))"

definition grammarLexerName :: "Project \<Rightarrow> string result" where
  "grammarLexerName p =
     (case findGrammarOfType p ''LEXER'' of
        Some g \<Rightarrow> Ok (TrimSuffix (Name g) ''Lexer'')
      | None \<Rightarrow>
          (case findGrammarOfType p ''COMBINED'' of
             Some g \<Rightarrow> Ok (Name g)
           | None \<Rightarrow> Panic (NoLexer (FileName p))))"

definition ParserName :: "Project \<Rightarrow> string result" where
  "ParserName p =
     (case grammarParserName p of Ok s \<Rightarrow> Ok (s @ ''Parser'') | Err e \<Rightarrow> Err e | Panic x \<Rightarrow> Panic x)"

definition LexerName :: "Project \<Rightarrow> string result" where
  "LexerName p =
     (case grammarLexerName p of Ok s \<Rightarrow> Ok (s @ ''Lexer'') | Err e \<Rightarrow> Err e | Panic x \<Rightarrow> Panic x)"

text \<open>\<^verbatim>\<open>(g *Grammar) GeneratedFilenames\<close>: the switch on the Type, in its order.\<close>

definition Grammar_GeneratedFilenames :: "Grammar \<Rightarrow> string list result" where
  "Grammar_GeneratedFilenames g =
     (if Type g = ''LEXER'' then
        (let name = ToLower (TrimSuffix (Name g) ''Lexer'')
         in Ok [name @ ''_lexer.go''])
      else if Type g = ''PARSER'' then
        (let name = ToLower (Name g);
             files = [name @ ''_base_listener.go'', name @ ''_listener.go''];
             name = ToLower (TrimSuffix (Name g) ''Parser'')
         in Ok (files @ [name @ ''_parser.go'']))
      else if Type g = ''COMBINED'' then
        (let name = ToLower (Name g);
             files = [name @ ''_base_listener.go'', name @ ''_listener.go'']
         in Ok (files @ [name @ ''_parser.go'', name @ ''_lexer.go'']))
      else Panic (UnknownGrammarType (Type g)))"

text \<open>
  \<^verbatim>\<open>(p *Project) GeneratedFilenames\<close>: the loop over the grammars, appending to
  \<open>files\<close>; a panic of a grammar's call ends the loop.
\<close>

fun GeneratedFilenames_loop :: "string list \<Rightarrow> Grammar list \<Rightarrow> string list result" where
  "GeneratedFilenames_loop files [] = Ok files"
| "GeneratedFilenames_loop files (g # gs) =
     (case Grammar_GeneratedFilenames g of
        Ok fs \<Rightarrow> GeneratedFilenames_loop (files @ fs) gs
      | Err e \<Rightarrow> Err e
      | Panic x \<Rightarrow> Panic x)"

definition GeneratedFilenames :: "Project \<Rightarrow> string list result" where
  "GeneratedFilenames p = GeneratedFilenames_loop [] (Grammars p)"

text \<open>A project that holds the given grammars and nothing else.\<close>

definition project_of :: "string \<Rightarrow> Grammar list \<Rightarrow> Project" where
  "project_of path gs =
     \<lparr>FileName = path, LongName = [], Includes = [], Grammars = gs, EntryPoint = [],
      ExampleRoot = [], Examples = [], CaseInsensitiveType = [], FoundAntlr4MavenPlugin = False\<rparr>"

section \<open>The world outside pom.go\<close>

text \<open>
  pom.go reads files and calls library packages. What those calls return is a
  parameter of the model, a record \<open>os_env\<close>:
  \<^item> \<open>stat_not_exist path\<close>: \<^verbatim>\<open>os.IsNotExist(err)\<close> for the error of \<^verbatim>\<open>os.Stat(path)\<close>;
  \<^item> \<open>open_lines path\<close>: \<^verbatim>\<open>os.Open(path)\<close> followed by a \<^verbatim>\<open>bufio.Scanner\<close>: the error of
    the open, or the texts the scanner yields, in order, with \<^verbatim>\<open>scanner.Err()\<close>
    (\<open>None\<close> for nil, when the scanner stopped at the end of the file);
  \<^item> \<open>open_tokens path\<close>: \<^verbatim>\<open>os.Open(path)\<close> followed by an \<^verbatim>\<open>xml.Decoder\<close>: the error of
    the open, or the tokens that \<^verbatim>\<open>decoder.Token()\<close> hands to the loop of ParsePom, in
    order, up to the call that returns a nil token, with the error of that call
    (\<^verbatim>\<open>io.EOF\<close> at the end of the input, a syntax error at malformed markup);
  \<^item> \<open>path_dir\<close>, \<open>path_join\<close>, \<open>path_glob\<close>: \<^verbatim>\<open>filepath.Dir\<close>, \<^verbatim>\<open>filepath.Join\<close>,
    \<^verbatim>\<open>filepath.Glob\<close>.

  The loop of ParsePom looks at start elements only. A start element carries its
  local name and what \<^verbatim>\<open>decoder.DecodeElement(&s, &se)\<close> returns for it when called
  right after the token was read: the element's text, or an error. The tokens that
  \<^verbatim>\<open>DecodeElement\<close> consumes are not seen by the loop and are not in the list. Every
  other kind of token is \<open>OtherToken\<close>.
\<close>

datatype token = StartElement string "string + string" | OtherToken

record os_env =
  stat_not_exist :: "string \<Rightarrow> bool"
  open_lines :: "string \<Rightarrow> string + string list \<times> string option"
  open_tokens :: "string \<Rightarrow> string + token list \<times> string"
  path_dir :: "string \<Rightarrow> string"
  path_join :: "string list \<Rightarrow> string"
  path_glob :: "string \<Rightarrow> string + string list"

text \<open>The lines that \<^verbatim>\<open>log.Printf\<close> writes, in order.\<close>

datatype log_entry =
    MissingGrammar string string  \<comment> \<open>\<^verbatim>\<open>"missing grammar %q referenced in %q"\<close>\<close>
  | FailedToParse string error  \<comment> \<open>\<^verbatim>\<open>"failed to parse grammar %q: %s"\<close>\<close>

section \<open>The header of a grammar file\<close>

text \<open>
  The loop of \<^verbatim>\<open>ParseG4\<close> over the scanner's lines; the empty list is the scanner's
  end, where \<^verbatim>\<open>scanner.Err()\<close> is looked at.
\<close>

fun scan_lines :: "string \<Rightarrow> string option \<Rightarrow> string list \<Rightarrow> Grammar result" where
  "scan_lines path scan_err [] =
     (case scan_err of Some e \<Rightarrow> Err (IOError e) | None \<Rightarrow> Err NotFoundError)"
| "scan_lines path scan_err (text # rest) =
     (let line = TrimSpace text;
          t = (if HasPrefix line ''grammar'' then ''COMBINED''
               else if HasPrefix line ''lexer'' then ''LEXER''
               else if HasPrefix line ''parser'' then ''PARSER''
               else [])
      in if t \<noteq> [] then
           (let semi = Index line '';'';
                line = (if semi \<ge> 0 then take (nat semi) line else line);
                parts = Fields line
            in if length parts < 2 then Err (ParseError line)
               else Ok \<lparr>Name = parts ! (length parts - 1), Filename = path, Type = t\<rparr>)
         else scan_lines path scan_err rest)"

definition ParseG4 :: "os_env \<Rightarrow> string \<Rightarrow> Grammar result" where
  "ParseG4 env path =
     (case open_lines env path of
        Inl e \<Rightarrow> Err (IOError e)
      | Inr (lines, scan_err) \<Rightarrow> scan_lines path scan_err lines)"

section \<open>The descriptor\<close>

fun contains :: "string list \<Rightarrow> string \<Rightarrow> bool" where
  "contains [] needle = False"
| "contains (straw # haystack) needle = (if straw = needle then True else contains haystack needle)"

definition fileExists :: "os_env \<Rightarrow> string \<Rightarrow> bool" where
  "fileExists env path = (\<not> stat_not_exist env path)"

text \<open>
  The value of \<open>file\<close> at line 248 of pom.go, for an element with the text \<open>text\<close>:
  the joined path, or its GoTarget variant when that exists.
\<close>

definition resolve :: "os_env \<Rightarrow> string \<Rightarrow> string \<Rightarrow> string" where
  "resolve env dir text =
     (let file = path_join env [dir, text];
          betterfile = Replace file ''.g4'' ''.GoTarget.g4'' (- 1)
      in if fileExists env betterfile then betterfile else file)"

text \<open>
  The body of the \<^verbatim>\<open>"grammars", "include"\<close> case after the element is decoded. The
  \<^verbatim>\<open>continue\<close> of a duplicate leaves the project and the log as they are.
\<close>

definition include_file ::
  "os_env \<Rightarrow> string \<Rightarrow> string \<Rightarrow> string \<Rightarrow> Project \<Rightarrow> log_entry list \<Rightarrow> Project result \<times> log_entry list" where
  "include_file env path dir text p log =
     (let file = resolve env dir text
      in if \<not> fileExists env file then (Ok p, log @ [MissingGrammar file path])
         else if contains (Includes p) file then (Ok p, log)
         else
           (let p = p\<lparr>Includes := Includes p @ [file]\<rparr>
            in case ParseG4 env file of
                 Err e \<Rightarrow> (Ok p, log @ [FailedToParse file e])
               | Ok g \<Rightarrow> (Ok (p\<lparr>Grammars := Grammars p @ [g]\<rparr>), log)
               | Panic x \<Rightarrow> (Panic x, log)))"

text \<open>
  One start element: the switch on \<^verbatim>\<open>se.Name.Local\<close>. \<open>body\<close> is the result of
  \<^verbatim>\<open>DecodeElement\<close>, which only the recognised cases call.
\<close>

definition start_element ::
  "os_env \<Rightarrow> string \<Rightarrow> string \<Rightarrow> string \<Rightarrow> string + string \<Rightarrow> Project \<Rightarrow> log_entry list
     \<Rightarrow> Project result \<times> log_entry list" where
  "start_element env path dir local body p log =
     (if local = ''artifactId'' then
        (case body of
           Inl e \<Rightarrow> (Err (DecodeError e), log)
         | Inr name \<Rightarrow>
             (Ok (if name = ''antlr4-maven-plugin'' then p\<lparr>FoundAntlr4MavenPlugin := True\<rparr> else p), log))
      else if local = ''grammars'' \<or> local = ''include'' then
        (case body of
           Inl e \<Rightarrow> (Err (DecodeError e), log)
         | Inr file \<Rightarrow> include_file env path dir file p log)
      else if local = ''grammarName'' then
        (case body of
           Inl e \<Rightarrow> (Err (DecodeError e), log)
         | Inr longName \<Rightarrow> (Ok (p\<lparr>LongName := longName\<rparr>), log))
      else if local = ''entryPoint'' then
        (case body of
           Inl e \<Rightarrow> (Err (DecodeError e), log)
         | Inr entryPoint \<Rightarrow> (Ok (p\<lparr>EntryPoint := entryPoint\<rparr>), log))
      else if local = ''exampleFiles'' then
        (case body of
           Inl e \<Rightarrow> (Err (DecodeError e), log)
         | Inr file \<Rightarrow>
             (case path_glob env (path_join env [dir, file, ''*'']) of
                Inl e \<Rightarrow> (Err (GlobError e), log)
              | Inr examples \<Rightarrow>
                  (Ok (p\<lparr>Examples := examples,
                         ExampleRoot := Repeat ''../'' (Count dir ''/'')\<rparr>), log)))
      else if local = ''caseInsensitiveType'' then
        (case body of
           Inl e \<Rightarrow> (Err (DecodeError e), log)
         | Inr caseInsensitiveType \<Rightarrow> (Ok (p\<lparr>CaseInsensitiveType := caseInsensitiveType\<rparr>), log))
      else (Ok p, log))"

text \<open>
  The \<^verbatim>\<open>for\<close> loop of ParsePom. The empty list is the call of \<^verbatim>\<open>decoder.Token()\<close>
  that returns a nil token: the loop breaks and ParsePom returns \<^verbatim>\<open>p, nil\<close>.
\<close>

fun parse_loop ::
  "os_env \<Rightarrow> string \<Rightarrow> string \<Rightarrow> token list \<Rightarrow> Project \<Rightarrow> log_entry list
     \<Rightarrow> Project result \<times> log_entry list" where
  "parse_loop env path dir [] p log = (Ok p, log)"
| "parse_loop env path dir (OtherToken # ts) p log = parse_loop env path dir ts p log"
| "parse_loop env path dir (StartElement local body # ts) p log =
     (case start_element env path dir local body p log of
        (Ok p', log') \<Rightarrow> parse_loop env path dir ts p' log'
      | (Err e, log') \<Rightarrow> (Err e, log')
      | (Panic x, log') \<Rightarrow> (Panic x, log'))"

text \<open>
  \<^verbatim>\<open>ParsePom\<close>: the project it returns or the error, and the log it wrote. The error
  with which the token stream ended is dropped, as \<^verbatim>\<open>t, _ := decoder.Token()\<close> drops
  it.
\<close>

definition ParsePom :: "os_env \<Rightarrow> string \<Rightarrow> Project result \<times> log_entry list" where
  "ParsePom env path =
     (let p = \<lparr>FileName = path, LongName = [], Includes = [], Grammars = [], EntryPoint = [],
               ExampleRoot = [], Examples = [], CaseInsensitiveType = [],
               FoundAntlr4MavenPlugin = False\<rparr>
      in case open_tokens env path of
           Inl e \<Rightarrow> (Err (IOError e), [])
         | Inr (toks, final_error) \<Rightarrow> parse_loop env path (path_dir env path) toks p [])"

section \<open>The spec's descriptions, for comparison with the code\<close>

text \<open>
  The header scanner in the spec's words: a line is a header line when its trimmed
  text starts with \<^verbatim>\<open>grammar\<close> (COMBINED), else \<^verbatim>\<open>lexer\<close> (LEXER), else
  \<^verbatim>\<open>parser\<close> (PARSER); the line is cut at its first semicolon and split on white
  space.
\<close>

definition spec_kind :: "string \<Rightarrow> string option" where
  "spec_kind line =
     (if HasPrefix line ''grammar'' then Some ''COMBINED''
      else if HasPrefix line ''lexer'' then Some ''LEXER''
      else if HasPrefix line ''parser'' then Some ''PARSER''
      else None)"

definition spec_is_header :: "string \<Rightarrow> bool" where
  "spec_is_header text = (spec_kind (TrimSpace text) \<noteq> None)"

definition spec_tokens :: "string \<Rightarrow> string list" where
  "spec_tokens text = Fields (takeWhile (\<lambda>c. c \<noteq> CHR '';'') (TrimSpace text))"

text \<open>
  The path the spec describes for a reference: the variant replaces the first
  occurrence of \<^verbatim>\<open>.g4\<close> only.
\<close>

definition spec_resolve :: "os_env \<Rightarrow> string \<Rightarrow> string \<Rightarrow> string" where
  "spec_resolve env dir text =
     (let file = path_join env [dir, text];
          variant = Replace file ''.g4'' ''.GoTarget.g4'' 1
      in if fileExists env variant then variant else file)"

text \<open>A list without the later occurrences of its elements.\<close>

fun first_occurrences :: "'a list \<Rightarrow> 'a list" where
  "first_occurrences [] = []"
| "first_occurrences (x # xs) = x # filter (\<lambda>y. y \<noteq> x) (first_occurrences xs)"

text \<open>What one reference does to Includes: a path is added when it exists and is new.\<close>

definition add_reference :: "os_env \<Rightarrow> string list \<Rightarrow> string \<Rightarrow> string list" where
  "add_reference env incs f = (if fileExists env f \<and> f \<notin> set incs then incs @ [f] else incs)"

text \<open>The texts of the \<^verbatim>\<open>grammars\<close> and \<^verbatim>\<open>include\<close> elements of a token list, in order.\<close>

fun include_texts :: "token list \<Rightarrow> string list" where
  "include_texts [] = []"
| "include_texts (StartElement local (Inr text) # ts) =
     (if local = ''grammars'' \<or> local = ''include'' then text # include_texts ts
      else include_texts ts)"
| "include_texts (t # ts) = include_texts ts"

text \<open>The grammars that the header scanner finds in a list of files, in order.\<close>

fun grammars_of :: "os_env \<Rightarrow> string list \<Rightarrow> Grammar list" where
  "grammars_of env [] = []"
| "grammars_of env (f # fs) =
     (case ParseG4 env f of Ok g \<Rightarrow> g # grammars_of env fs | _ \<Rightarrow> grammars_of env fs)"

text \<open>
  The tokens at which ParsePom gives up: a recognised element that cannot be
  decoded, and an \<^verbatim>\<open>exampleFiles\<close> element whose pattern \<^verbatim>\<open>filepath.Glob\<close> refuses.
\<close>

definition recognised :: "string \<Rightarrow> bool" where
  "recognised local =
     (local = ''artifactId'' \<or> local = ''grammars'' \<or> local = ''include'' \<or>
      local = ''grammarName'' \<or> local = ''entryPoint'' \<or> local = ''exampleFiles'' \<or>
      local = ''caseInsensitiveType'')"


section \<open>An example file system\<close>

text \<open>
  Two directories. \<^verbatim>\<open>proj\<close> holds a descriptor that names a lexer and a parser
  grammar (the parser has a GoTarget variant), the lexer a second time, a file that is
  not there and a file without a header; its markup breaks off after the last
  element. \<^verbatim>\<open>c4\<close> holds a descriptor
  that names a grammar in a directory whose own name contains \<^verbatim>\<open>.g4\<close>. On the clean
  relative paths used here \<^verbatim>\<open>filepath.Join\<close> puts a slash between its arguments and
  \<^verbatim>\<open>filepath.Dir\<close> cuts the path at its last slash.
\<close>

fun example_join :: "string list \<Rightarrow> string" where
  "example_join [] = []"
| "example_join [x] = x"
| "example_join (x # y # zs) = x @ ''/'' @ example_join (y # zs)"

definition example_dir :: "string \<Rightarrow> string" where
  "example_dir path = rev (drop 1 (dropWhile (\<lambda>c. c \<noteq> CHR ''/'') (rev path)))"

definition example_files :: "(string \<times> string list) list" where
  "example_files =
     [(''proj/FooLexer.g4'', [''// the lexer'', ''lexer grammar FooLexer;'', ''ID : [a-z]+ ;'']),
      (''proj/FooParser.g4'', [''parser grammar FooParser;'', ''options { tokenVocab = FooLexer; }'']),
      (''proj/FooParser.GoTarget.g4'', [''parser grammar FooParser;'', ''options { tokenVocab = FooLexer; }'']),
      (''proj/Notes.g4'', [''// nothing is declared here'']),
      (''proj/Broken.g4'', [''grammar;'', ''grammar Late;'']),
      (''c4/x.g4/Foo.g4'', [''grammar Foo;'']),
      (''c4/x.GoTarget.g4/Foo.g4'', [''grammar Foo;''])]"

definition example_poms :: "(string \<times> token list \<times> string) list" where
  "example_poms =
     [(''proj/pom.xml'',
       [OtherToken,
        StartElement ''project'' (Inr []),
        StartElement ''artifactId'' (Inr ''antlr4-maven-plugin''),
        StartElement ''include'' (Inr ''FooLexer.g4''),
        OtherToken,
        StartElement ''include'' (Inr ''FooParser.g4''),
        StartElement ''include'' (Inr ''FooLexer.g4''),
        StartElement ''include'' (Inr ''Missing.g4''),
        StartElement ''include'' (Inr ''Notes.g4''),
        StartElement ''grammarName'' (Inr ''Foo'')],
       ''XML syntax error on line 12: unexpected EOF''),
      (''c4/pom.xml'', [StartElement ''include'' (Inr ''x.g4/Foo.g4'')], ''EOF'')]"

definition example_env :: os_env where
  "example_env =
     \<lparr>stat_not_exist = (\<lambda>path. map_of example_files path = None \<and> map_of example_poms path = None),
      open_lines = (\<lambda>path. case map_of example_files path of
                              None \<Rightarrow> Inl ''no such file or directory''
                            | Some texts \<Rightarrow> Inr (texts, None)),
      open_tokens = (\<lambda>path. case map_of example_poms path of
                               None \<Rightarrow> Inl ''no such file or directory''
                             | Some d \<Rightarrow> Inr d),
      path_dir = example_dir,
      path_join = example_join,
      path_glob = (\<lambda>pattern. Inr [])\<rparr>"

section \<open>Facts about the string functions\<close>

lemma TrimSuffix_append: "TrimSuffix (b @ suf) suf = b"
  by (simp add: TrimSuffix_def HasSuffix_def)

lemma ToLower_Foo: "ToLower ''Foo'' = ''foo''"
  by code_simp

lemma ToLower_FooParser: "ToLower ''FooParser'' = ''fooparser''"
  by code_simp

lemma TrimSuffix_FooParser: "TrimSuffix ''FooParser'' ''Parser'' = ''Foo''"
  using TrimSuffix_append [of "''Foo''" "''Parser''"] by simp

lemma TrimSuffix_FooLexer: "TrimSuffix ''FooLexer'' ''Lexer'' = ''Foo''"
  using TrimSuffix_append [of "''Foo''" "''Lexer''"] by simp

lemma findGrammarOfType_in_None:
  "findGrammarOfType_in gs t = None \<longleftrightarrow> (\<forall>g \<in> set gs. Type g \<noteq> t)"
  by (induction gs) auto

lemma HasPrefix_single: "HasPrefix (c # cs) [d] \<longleftrightarrow> c = d"
  by (simp add: HasPrefix_def)

lemma Index_semicolon:
  "(if Index l '';'' \<ge> 0 then take (nat (Index l '';'')) l else l) = takeWhile (\<lambda>c. c \<noteq> CHR '';'') l"
proof (induction l)
  case Nil
  then show ?case by simp
next
  case (Cons c cs)
  show ?case
  proof (cases "c = CHR '';''")
    case True
    then show ?thesis by (simp add: HasPrefix_single)
  next
    case False
    then show ?thesis using Cons
      by (auto simp: HasPrefix_single Let_def nat_add_distrib split: if_splits)
  qed
qed

lemma replace_from_enough:
  "(n < 0 \<or> int (count_from s old) \<le> n) \<Longrightarrow> (m < 0 \<or> int (count_from s old) \<le> m) \<Longrightarrow>
     replace_from s old new n = replace_from s old new m"
proof (induction s old new n arbitrary: m rule: replace_from.induct)
  case (1 old new n)
  then show ?case by simp
next
  case (2 c cs old new n)
  show ?case
  proof (cases "old \<noteq> [] \<and> HasPrefix (c # cs) old")
    case True
    then have cnt: "count_from (c # cs) old = Suc (count_from (drop (length old) (c # cs)) old)"
      by simp
    have n0: "n \<noteq> 0" and m0: "m \<noteq> 0"
      using "2.prems" cnt by auto
    have "replace_from (drop (length old) (c # cs)) old new (n - 1) =
        replace_from (drop (length old) (c # cs)) old new (m - 1)"
      using "2.IH"(1) [of "m - 1"] True n0 "2.prems" cnt by auto
    then show ?thesis using True n0 m0 by simp
  next
    case False
    then have cnt: "count_from (c # cs) old = count_from cs old"
      by auto
    have "replace_from cs old new n = replace_from cs old new m"
      using "2.IH"(2) [of m] False "2.prems" cnt by auto
    then show ?thesis using False by auto
  qed
qed

lemma Replace_all_is_first:
  assumes "Count s ''.g4'' \<le> 1"
  shows "Replace s ''.g4'' ''.GoTarget.g4'' (- 1) = Replace s ''.g4'' ''.GoTarget.g4'' 1"
  using assms replace_from_enough [of "- 1" s "''.g4''" 1 "''.GoTarget.g4''"]
  by (simp add: Replace_def Count_def)

section \<open>Facts about the header scanner\<close>

lemma scan_lines_header:
  assumes "spec_is_header text"
  shows "scan_lines path scan_err (text # rest) =
    (if length (spec_tokens text) < 2
     then Err (ParseError (takeWhile (\<lambda>c. c \<noteq> CHR '';'') (TrimSpace text)))
     else Ok \<lparr>Name = last (spec_tokens text), Filename = path,
              Type = the (spec_kind (TrimSpace text))\<rparr>)"
proof -
  have ne: "spec_tokens text \<noteq> []" if "\<not> length (spec_tokens text) < 2"
    using that by auto
  show ?thesis
    using assms ne
    by (auto simp: spec_is_header_def spec_kind_def spec_tokens_def Let_def Index_semicolon
        last_conv_nth simp del: Index.simps split: if_splits)
qed

lemma scan_lines_skip:
  assumes "\<not> spec_is_header text"
  shows "scan_lines path scan_err (text # rest) = scan_lines path scan_err rest"
  using assms by (auto simp: spec_is_header_def spec_kind_def Let_def split: if_splits)

lemma scan_lines_find:
  "scan_lines path scan_err texts =
    (case find spec_is_header texts of
       None \<Rightarrow> (case scan_err of Some e \<Rightarrow> Err (IOError e) | None \<Rightarrow> Err NotFoundError)
     | Some text \<Rightarrow>
        (if length (spec_tokens text) < 2
         then Err (ParseError (takeWhile (\<lambda>c. c \<noteq> CHR '';'') (TrimSpace text)))
         else Ok \<lparr>Name = last (spec_tokens text), Filename = path,
                  Type = the (spec_kind (TrimSpace text))\<rparr>))"
proof (induction texts)
  case Nil
  then show ?case by simp
next
  case (Cons l rest)
  show ?case
  proof (cases "spec_is_header l")
    case True
    then show ?thesis using scan_lines_header [OF True] by simp
  next
    case False
    then show ?thesis using scan_lines_skip [OF False] Cons by simp
  qed
qed

lemma scan_lines_no_panic: "\<not> is_Panic (scan_lines path scan_err texts)"
  by (simp add: scan_lines_find split: option.splits)

lemma scan_lines_Filename: "scan_lines path scan_err texts = Ok g \<Longrightarrow> Filename g = path"
  by (auto simp: scan_lines_find split: option.splits if_splits)

lemma ParseG4_no_panic: "ParseG4 env path \<noteq> Panic x"
proof (cases "open_lines env path")
  case (Inl e)
  then show ?thesis by (simp add: ParseG4_def)
next
  case (Inr r)
  obtain texts scan_err where "r = (texts, scan_err)" by (cases r)
  with Inr show ?thesis
    using scan_lines_no_panic [of path scan_err texts] by (auto simp: ParseG4_def)
qed

lemma ParseG4_Filename: "ParseG4 env path = Ok g \<Longrightarrow> Filename g = path"
  by (auto simp: ParseG4_def scan_lines_Filename split: sum.splits)

section \<open>Facts about the descriptor reader\<close>

lemma contains_set: "contains xs x \<longleftrightarrow> x \<in> set xs"
  by (induction xs) auto

lemma grammars_of_append: "grammars_of env (fs @ gs) = grammars_of env fs @ grammars_of env gs"
  by (induction fs) (auto split: result.splits)

lemma Filename_grammars_of:
  "map Filename (grammars_of env fs) = filter (\<lambda>f. is_Ok (ParseG4 env f)) fs"
  by (induction fs) (auto split: result.splits dest: ParseG4_Filename)

lemma distinct_first_occurrences: "distinct (first_occurrences xs)"
  by (induction xs) auto


lemma foldl_add_reference:
  "foldl (add_reference env) incs fs =
     incs @ filter (\<lambda>f. f \<notin> set incs) (first_occurrences (filter (fileExists env) fs))"
proof (induction fs arbitrary: incs)
  case Nil
  then show ?case by simp
next
  case (Cons f fs)
  show ?case
  proof (cases "fileExists env f \<and> f \<notin> set incs")
    case True
    then have "foldl (add_reference env) incs (f # fs) = foldl (add_reference env) (incs @ [f]) fs"
      by (simp add: add_reference_def)
    also have "\<dots> = (incs @ [f]) @ filter (\<lambda>g. g \<notin> set (incs @ [f]))
        (first_occurrences (filter (fileExists env) fs))"
      by (rule Cons.IH)
    finally show ?thesis using True by (simp add: conj_commute)
  next
    case False
    have "foldl (add_reference env) incs (f # fs) = foldl (add_reference env) incs fs"
      using False unfolding add_reference_def by auto
    then show ?thesis using False Cons.IH [of incs]
      by (auto intro: filter_cong)
  qed
qed

subsection \<open>One reference\<close>

lemma include_file_Ok:
  "\<exists>p' log'. include_file env path dir text p log = (Ok p', log') \<and>
     Includes p' = add_reference env (Includes p) (resolve env dir text) \<and>
     (Grammars p = grammars_of env (Includes p) \<longrightarrow> Grammars p' = grammars_of env (Includes p')) \<and>
     FileName p' = FileName p \<and> LongName p' = LongName p \<and> EntryPoint p' = EntryPoint p \<and>
     ExampleRoot p' = ExampleRoot p \<and> Examples p' = Examples p \<and>
     CaseInsensitiveType p' = CaseInsensitiveType p \<and>
     FoundAntlr4MavenPlugin p' = FoundAntlr4MavenPlugin p"
proof (cases "ParseG4 env (resolve env dir text)")
  case (Ok g)
  then show ?thesis
    by (simp add: include_file_def Let_def contains_set add_reference_def grammars_of_append)
next
  case (Err e)
  then show ?thesis
    by (simp add: include_file_def Let_def contains_set add_reference_def grammars_of_append)
next
  case (Panic x)
  then show ?thesis using ParseG4_no_panic by blast
qed



lemma include_file_duplicate:
  "fileExists env (resolve env dir text) \<Longrightarrow> resolve env dir text \<in> set (Includes p) \<Longrightarrow>
     include_file env path dir text p log = (Ok p, log)"
  by (simp add: include_file_def Let_def contains_set)

subsection \<open>One start element\<close>

lemma start_element_include:
  "local = ''grammars'' \<or> local = ''include'' \<Longrightarrow>
     start_element env path dir local (Inr file) p log = include_file env path dir file p log"
  by (auto simp: start_element_def)

lemma start_element_other:
  assumes "\<not> (local = ''grammars'' \<or> local = ''include'')"
    and "start_element env path dir local body p log = (r, log')"
  shows "log' = log \<and> \<not> is_Panic r \<and>
    (\<forall>p'. r = Ok p' \<longrightarrow> Includes p' = Includes p \<and> Grammars p' = Grammars p)"
  using assms by (auto simp: start_element_def split: if_splits sum.splits)

lemma include_texts_other:
  "\<not> (local = ''grammars'' \<or> local = ''include'') \<Longrightarrow> include_texts (StartElement local body # ts) = include_texts ts"
  by (cases body) auto

lemma start_element_Inl:
  "start_element env path dir local (Inl m) p log =
     (if recognised local then (Err (DecodeError m), log) else (Ok p, log))"
  by (simp add: start_element_def recognised_def)




lemma start_element_Includes:
  assumes "start_element env path dir local body p log = (Ok p', log')"
  shows "Includes p' = foldl (add_reference env) (Includes p)
      (map (resolve env dir) (include_texts [StartElement local body])) \<and>
    (Grammars p = grammars_of env (Includes p) \<longrightarrow> Grammars p' = grammars_of env (Includes p'))"
proof (cases "local = ''grammars'' \<or> local = ''include''")
  case True
  show ?thesis
  proof (cases body)
    case (Inl m)
    then show ?thesis using assms True by (simp add: start_element_Inl recognised_def split: if_splits)
  next
    case (Inr fl)
    then show ?thesis
      using assms True include_file_Ok [of env path dir fl p log] start_element_include [OF True]
      by auto
  qed
next
  case False
  then show ?thesis
    using start_element_other [OF False assms] by (simp add: include_texts_other)
qed


subsection \<open>The loop\<close>

lemma include_texts_Cons: "include_texts (t # ts) = include_texts [t] @ include_texts ts"
  by (induction "t # ts" rule: include_texts.induct) auto

lemma parse_loop_StartElement_Ok:
  assumes "parse_loop env path dir (StartElement local body # ts) p log = (Ok p', log')"
  obtains p1 log1 where "start_element env path dir local body p log = (Ok p1, log1)"
    and "parse_loop env path dir ts p1 log1 = (Ok p', log')"
  using assms by (auto split: prod.splits result.splits)

lemma parse_loop_Includes:
  "parse_loop env path dir toks p log = (Ok p', log') \<Longrightarrow>
     Includes p' = foldl (add_reference env) (Includes p) (map (resolve env dir) (include_texts toks)) \<and>
     (Grammars p = grammars_of env (Includes p) \<longrightarrow> Grammars p' = grammars_of env (Includes p'))"
proof (induction toks arbitrary: p log)
  case Nil
  then show ?case by simp
next
  case (Cons t ts)
  show ?case
  proof (cases t)
    case OtherToken
    then show ?thesis using Cons by simp
  next
    case (StartElement local body)
    obtain p1 log1 where step: "start_element env path dir local body p log = (Ok p1, log1)"
      and rest: "parse_loop env path dir ts p1 log1 = (Ok p', log')"
      using Cons.prems StartElement parse_loop_StartElement_Ok by blast
    have a: "Includes p1 = foldl (add_reference env) (Includes p)
        (map (resolve env dir) (include_texts [t]))"
      and b: "Grammars p = grammars_of env (Includes p) \<longrightarrow> Grammars p1 = grammars_of env (Includes p1)"
      using start_element_Includes [OF step] StartElement by simp_all
    have c: "Includes p' = foldl (add_reference env) (Includes p1)
        (map (resolve env dir) (include_texts ts))"
      and d: "Grammars p1 = grammars_of env (Includes p1) \<longrightarrow> Grammars p' = grammars_of env (Includes p')"
      using Cons.IH [OF rest] by simp_all
    have "include_texts (t # ts) = include_texts [t] @ include_texts ts"
      by (rule include_texts_Cons)
    then show ?thesis using a b c d by simp
  qed
qed













lemma ParsePom_opened:
  "open_tokens env path = Inr (toks, final_error) \<Longrightarrow>
     ParsePom env path = parse_loop env path (path_dir env path) toks (project_of path []) []"
  by (simp add: ParsePom_def project_of_def)

lemma example_proj_tokens:
  "open_tokens example_env ''proj/pom.xml'' =
     Inr ([OtherToken,
        StartElement ''project'' (Inr []),
        StartElement ''artifactId'' (Inr ''antlr4-maven-plugin''),
        StartElement ''include'' (Inr ''FooLexer.g4''),
        OtherToken,
        StartElement ''include'' (Inr ''FooParser.g4''),
        StartElement ''include'' (Inr ''FooLexer.g4''),
        StartElement ''include'' (Inr ''Missing.g4''),
        StartElement ''include'' (Inr ''Notes.g4''),
        StartElement ''grammarName'' (Inr ''Foo'')],
       ''XML syntax error on line 12: unexpected EOF'')"
  by code_simp

lemma example_proj_parsed:
  "ParsePom example_env ''proj/pom.xml'' =
     (Ok \<lparr>FileName = ''proj/pom.xml'', LongName = ''Foo'',
           Includes = [''proj/FooLexer.g4'', ''proj/FooParser.GoTarget.g4'', ''proj/Notes.g4''],
           Grammars =
             [\<lparr>Name = ''FooLexer'', Filename = ''proj/FooLexer.g4'', Type = ''LEXER''\<rparr>,
              \<lparr>Name = ''FooParser'', Filename = ''proj/FooParser.GoTarget.g4'', Type = ''PARSER''\<rparr>],
           EntryPoint = [], ExampleRoot = [], Examples = [], CaseInsensitiveType = [],
           FoundAntlr4MavenPlugin = True\<rparr>,
      [MissingGrammar ''proj/Missing.g4'' ''proj/pom.xml'',
       FailedToParse ''proj/Notes.g4'' NotFoundError])"
  by code_simp


section \<open>Generated file names\<close>

text \<open>
  C2, as the spec states it: for one COMBINED grammar named Foo the result is the four
  names without a file extension. The code appends \<^verbatim>\<open>.go\<close> to every name, so the
  stated list is not what it returns.
\<close>

theorem C2_combined_Foo_counterexample:
  "GeneratedFilenames (project_of ''pom.xml''
      [\<lparr>Name = ''Foo'', Filename = ''Foo.g4'', Type = ''COMBINED''\<rparr>])
   \<noteq> Ok [''foo_base_listener'', ''foo_listener'', ''foo_parser'', ''foo_lexer'']"
  by code_simp

text \<open>
  C2, amended: for every project whose Grammars are exactly one COMBINED grammar named
  Foo, GeneratedFilenames returns exactly foo_base_listener.go, foo_listener.go,
  foo_parser.go, foo_lexer.go, in that order.
\<close>

theorem C2_combined_Foo:
  assumes "Grammars p = [g]" and "Name g = ''Foo''" and "Type g = ''COMBINED''"
  shows "GeneratedFilenames p =
    Ok [''foo_base_listener.go'', ''foo_listener.go'', ''foo_parser.go'', ''foo_lexer.go'']"
  using assms
  by (simp add: GeneratedFilenames_def Grammar_GeneratedFilenames_def ToLower_Foo)

theorem C2_combined_Foo_witness:
  "GeneratedFilenames (project_of ''pom.xml''
      [\<lparr>Name = ''Foo'', Filename = ''Foo.g4'', Type = ''COMBINED''\<rparr>])
   = Ok [''foo_base_listener.go'', ''foo_listener.go'', ''foo_parser.go'', ''foo_lexer.go'']"
  using C2_combined_Foo [of "project_of ''pom.xml''
      [\<lparr>Name = ''Foo'', Filename = ''Foo.g4'', Type = ''COMBINED''\<rparr>]"
      "\<lparr>Name = ''Foo'', Filename = ''Foo.g4'', Type = ''COMBINED''\<rparr>"]
  by (simp add: project_of_def)

text \<open>
  C1, as the spec states it: the split form (PARSER FooParser, then LEXER FooLexer)
  gives the same four names as the combined form (COMBINED Foo). The code names the
  two listener files of a PARSER grammar after its whole lower-cased name, so the
  lists differ.
\<close>

theorem C1_split_vs_combined_counterexample:
  "GeneratedFilenames (project_of ''pom.xml''
      [\<lparr>Name = ''FooParser'', Filename = ''FooParser.g4'', Type = ''PARSER''\<rparr>,
       \<lparr>Name = ''FooLexer'', Filename = ''FooLexer.g4'', Type = ''LEXER''\<rparr>])
   \<noteq> GeneratedFilenames (project_of ''pom.xml''
      [\<lparr>Name = ''Foo'', Filename = ''Foo.g4'', Type = ''COMBINED''\<rparr>])"
  by code_simp

text \<open>
  C1, amended: for a project whose Grammars are exactly PARSER FooParser followed by
  LEXER FooLexer, GeneratedFilenames returns fooparser_base_listener.go,
  fooparser_listener.go, foo_parser.go, foo_lexer.go, in that order; for a project
  whose Grammars are exactly COMBINED Foo it returns four names too, and the two
  results agree from the third name on (the parser and lexer files) and in nothing
  before.
\<close>

theorem C1_split_vs_combined:
  assumes "Grammars p = [gp, gl]"
    and "Name gp = ''FooParser''" and "Type gp = ''PARSER''"
    and "Name gl = ''FooLexer''" and "Type gl = ''LEXER''"
    and "Grammars q = [gc]" and "Name gc = ''Foo''" and "Type gc = ''COMBINED''"
  shows "GeneratedFilenames p =
      Ok [''fooparser_base_listener.go'', ''fooparser_listener.go'',
          ''foo_parser.go'', ''foo_lexer.go''] \<and>
    (\<exists>fs fs'. GeneratedFilenames p = Ok fs \<and> GeneratedFilenames q = Ok fs' \<and>
       length fs = 4 \<and> length fs' = 4 \<and> drop 2 fs = drop 2 fs' \<and>
       fs ! 0 \<noteq> fs' ! 0 \<and> fs ! 1 \<noteq> fs' ! 1)"
  using assms
  by (simp add: GeneratedFilenames_def Grammar_GeneratedFilenames_def ToLower_Foo
      ToLower_FooParser TrimSuffix_FooParser TrimSuffix_FooLexer)

theorem C1_split_vs_combined_witness:
  "GeneratedFilenames (project_of ''pom.xml''
      [\<lparr>Name = ''FooParser'', Filename = ''FooParser.g4'', Type = ''PARSER''\<rparr>,
       \<lparr>Name = ''FooLexer'', Filename = ''FooLexer.g4'', Type = ''LEXER''\<rparr>])
   = Ok [''fooparser_base_listener.go'', ''fooparser_listener.go'',
         ''foo_parser.go'', ''foo_lexer.go'']"
  using C1_split_vs_combined [of "project_of ''pom.xml''
      [\<lparr>Name = ''FooParser'', Filename = ''FooParser.g4'', Type = ''PARSER''\<rparr>,
       \<lparr>Name = ''FooLexer'', Filename = ''FooLexer.g4'', Type = ''LEXER''\<rparr>]"
      "\<lparr>Name = ''FooParser'', Filename = ''FooParser.g4'', Type = ''PARSER''\<rparr>"
      "\<lparr>Name = ''FooLexer'', Filename = ''FooLexer.g4'', Type = ''LEXER''\<rparr>"
      "project_of ''pom.xml'' [\<lparr>Name = ''Foo'', Filename = ''Foo.g4'', Type = ''COMBINED''\<rparr>]"
      "\<lparr>Name = ''Foo'', Filename = ''Foo.g4'', Type = ''COMBINED''\<rparr>"]
  by (simp add: project_of_def)




section \<open>Projects without a parser\<close>

text \<open>
  C7, as the spec states it: with no PARSER and no COMBINED grammar, ListenerName and
  grammarParserName fail with an error handed to the caller. In the code both return
  a plain string and have no error result: for a project holding only a LEXER
  grammar they panic.
\<close>

theorem C7_no_parser_counterexample:
  "\<not> is_Err (ListenerName (project_of ''pom.xml''
      [\<lparr>Name = ''FooLexer'', Filename = ''FooLexer.g4'', Type = ''LEXER''\<rparr>])) \<and>
   \<not> is_Err (grammarParserName (project_of ''pom.xml''
      [\<lparr>Name = ''FooLexer'', Filename = ''FooLexer.g4'', Type = ''LEXER''\<rparr>])) \<and>
   ListenerName (project_of ''pom.xml''
      [\<lparr>Name = ''FooLexer'', Filename = ''FooLexer.g4'', Type = ''LEXER''\<rparr>])
     = Panic (NoParser ''pom.xml'')"
  by code_simp

text \<open>
  C7, amended: for every project whose Grammars contain no PARSER grammar and no
  COMBINED grammar, ListenerName and grammarParserName panic with the message that the
  project's FileName does not contain a parser; neither returns a value or an error.
\<close>

theorem C7_no_parser:
  assumes "\<forall>g \<in> set (Grammars p). Type g \<noteq> ''PARSER'' \<and> Type g \<noteq> ''COMBINED''"
  shows "ListenerName p = Panic (NoParser (FileName p)) \<and>
    grammarParserName p = Panic (NoParser (FileName p))"
proof -
  have "findGrammarOfType p ''PARSER'' = None"
    using assms by (simp add: findGrammarOfType_def findGrammarOfType_in_None)
  moreover have "findGrammarOfType p ''COMBINED'' = None"
    using assms by (simp add: findGrammarOfType_def findGrammarOfType_in_None)
  ultimately show ?thesis
    by (simp add: ListenerName_def grammarParserName_def)
qed

theorem C7_no_parser_witness:
  "ListenerName (project_of ''pom.xml''
      [\<lparr>Name = ''FooLexer'', Filename = ''FooLexer.g4'', Type = ''LEXER''\<rparr>])
     = Panic (NoParser ''pom.xml'') \<and>
   grammarParserName (project_of ''pom.xml''
      [\<lparr>Name = ''FooLexer'', Filename = ''FooLexer.g4'', Type = ''LEXER''\<rparr>])
     = Panic (NoParser ''pom.xml'')"
  using C7_no_parser [of "project_of ''pom.xml''
      [\<lparr>Name = ''FooLexer'', Filename = ''FooLexer.g4'', Type = ''LEXER''\<rparr>]"]
  by (simp add: project_of_def)

section \<open>The header scanner\<close>





section \<open>The descriptor reader\<close>

text \<open>
  C4, as the spec states it: the variant path replaces the first occurrence of the
  extension only. The code calls \<^verbatim>\<open>strings.Replace\<close> with the count -1, which
  replaces every occurrence. In the directory \<^verbatim>\<open>c4\<close> the reference
  \<^verbatim>\<open>x.g4/Foo.g4\<close> has the first-occurrence variant \<^verbatim>\<open>c4/x.GoTarget.g4/Foo.g4\<close> on
  disk, and the spec's rule would take it; the code probes
  \<^verbatim>\<open>c4/x.GoTarget.g4/Foo.GoTarget.g4\<close>, which is not there, and keeps the literal
  path.
\<close>

theorem C4_variant_counterexample:
  "resolve example_env ''c4'' ''x.g4/Foo.g4'' \<noteq> spec_resolve example_env ''c4'' ''x.g4/Foo.g4'' \<and>
   ParsePom example_env ''c4/pom.xml'' =
     (Ok \<lparr>FileName = ''c4/pom.xml'', LongName = [], Includes = [''c4/x.g4/Foo.g4''],
           Grammars = [\<lparr>Name = ''Foo'', Filename = ''c4/x.g4/Foo.g4'', Type = ''COMBINED''\<rparr>],
           EntryPoint = [], ExampleRoot = [], Examples = [], CaseInsensitiveType = [],
           FoundAntlr4MavenPlugin = False\<rparr>, []) \<and>
   spec_resolve example_env ''c4'' ''x.g4/Foo.g4'' = ''c4/x.GoTarget.g4/Foo.g4''"
  by code_simp

text \<open>
  C4, amended: for a grammars or include reference the variant path that is probed
  is the joined path with every occurrence of \<^verbatim>\<open>.g4\<close> replaced by
  \<^verbatim>\<open>.GoTarget.g4\<close>; when that file exists it is the path the reference stands for,
  otherwise the literal joined path is, and that path is appended to Includes when
  it exists and is not there yet. When \<^verbatim>\<open>.g4\<close> occurs at most once in the joined
  path, this is the path of the spec's first-occurrence rule.
\<close>

theorem C4_variant_replaces_all:
  assumes "local = ''grammars'' \<or> local = ''include''"
  shows "\<exists>p' log'. start_element env path dir local (Inr fl) p log = (Ok p', log') \<and>
    Includes p' =
      (let file = path_join env [dir, fl];
           variant = Replace file ''.g4'' ''.GoTarget.g4'' (- 1)
       in add_reference env (Includes p) (if fileExists env variant then variant else file)) \<and>
    (Count (path_join env [dir, fl]) ''.g4'' \<le> 1 \<longrightarrow> resolve env dir fl = spec_resolve env dir fl)"
proof -
  obtain p' log' where step: "include_file env path dir fl p log = (Ok p', log')"
    and incs: "Includes p' = add_reference env (Includes p) (resolve env dir fl)"
    using include_file_Ok by blast
  have "start_element env path dir local (Inr fl) p log = (Ok p', log')"
    using step start_element_include [OF assms] by simp
  moreover have "Includes p' =
      (let file = path_join env [dir, fl];
           variant = Replace file ''.g4'' ''.GoTarget.g4'' (- 1)
       in add_reference env (Includes p) (if fileExists env variant then variant else file))"
    using incs by (simp add: resolve_def Let_def)
  moreover have "resolve env dir fl = spec_resolve env dir fl"
    if "Count (path_join env [dir, fl]) ''.g4'' \<le> 1"
    using Replace_all_is_first [OF that] by (simp add: resolve_def spec_resolve_def)
  ultimately show ?thesis by blast
qed

theorem C4_variant_replaces_all_witness:
  "\<exists>p' log'. start_element example_env ''proj/pom.xml'' ''proj'' ''include'' (Inr ''FooParser.g4'')
       (project_of ''proj/pom.xml'' []) [] = (Ok p', log') \<and>
     Includes p' = [''proj/FooParser.GoTarget.g4''] \<and>
     resolve example_env ''proj'' ''FooParser.g4'' = spec_resolve example_env ''proj'' ''FooParser.g4''"
proof -
  have a: "(let file = path_join example_env [''proj'', ''FooParser.g4''];
           variant = Replace file ''.g4'' ''.GoTarget.g4'' (- 1)
       in add_reference example_env (Includes (project_of ''proj/pom.xml'' []))
            (if fileExists example_env variant then variant else file))
       = [''proj/FooParser.GoTarget.g4'']"
    by code_simp
  have b: "Count (path_join example_env [''proj'', ''FooParser.g4'']) ''.g4'' \<le> 1"
    by code_simp
  show ?thesis
    using C4_variant_replaces_all [of "''include''" example_env "''proj/pom.xml''" "''proj''"
        "''FooParser.g4''" "project_of ''proj/pom.xml'' []" "[]"] a b
    by auto
qed

text \<open>
  C8: when ParsePom returns a project, its Includes has no duplicates: it is the list
  of the resolved paths that exist, in the order of the references, each at its
  first occurrence only. Every entry of Includes is scanned once, so Grammars holds
  at most one grammar per file. A reference to a path that is already in Includes
  changes neither the project nor the log.
\<close>

theorem C8_includes_no_duplicates:
  assumes "open_tokens env path = Inr (toks, final_error)"
    and "ParsePom env path = (Ok p, log)"
  shows "distinct (Includes p) \<and>
    Includes p = first_occurrences (filter (fileExists env)
       (map (resolve env (path_dir env path)) (include_texts toks))) \<and>
    Grammars p = grammars_of env (Includes p) \<and>
    distinct (map Filename (Grammars p)) \<and>
    (\<forall>local fl q l. (local = ''grammars'' \<or> local = ''include'') \<and>
        fileExists env (resolve env dir fl) \<and> resolve env dir fl \<in> set (Includes q) \<longrightarrow>
        start_element env path dir local (Inr fl) q l = (Ok q, l))"
proof -
  have loop: "parse_loop env path (path_dir env path) toks (project_of path []) [] = (Ok p, log)"
    using assms ParsePom_opened by simp
  have incs: "Includes p = first_occurrences (filter (fileExists env)
       (map (resolve env (path_dir env path)) (include_texts toks)))"
    and grs: "Grammars p = grammars_of env (Includes p)"
    using parse_loop_Includes [OF loop] by (simp_all add: project_of_def foldl_add_reference)
  have d: "distinct (Includes p)"
    using incs distinct_first_occurrences by simp
  have dg: "distinct (map Filename (Grammars p))"
    using d grs by (simp add: Filename_grammars_of)
  have dup: "start_element env path dir local (Inr fl) q l = (Ok q, l)"
    if "local = ''grammars'' \<or> local = ''include''" "fileExists env (resolve env dir fl)"
      "resolve env dir fl \<in> set (Includes q)" for local fl q l
    using that by (simp add: start_element_include include_file_duplicate)
  show ?thesis using incs grs d dg dup by blast
qed

theorem C8_includes_no_duplicates_witness:
  "\<exists>p log. ParsePom example_env ''proj/pom.xml'' = (Ok p, log) \<and>
     Includes p = [''proj/FooLexer.g4'', ''proj/FooParser.GoTarget.g4'', ''proj/Notes.g4''] \<and>
     distinct (Includes p) \<and> distinct (map Filename (Grammars p))"
proof -
  obtain p log where parsed: "ParsePom example_env ''proj/pom.xml'' = (Ok p, log)"
    and incs: "Includes p = [''proj/FooLexer.g4'', ''proj/FooParser.GoTarget.g4'', ''proj/Notes.g4'']"
    using example_proj_parsed by simp
  have "distinct (Includes p) \<and> distinct (map Filename (Grammars p))"
    using C8_includes_no_duplicates [OF example_proj_tokens parsed] by blast
  then show ?thesis using parsed incs by blast
qed





end
